theory Spec2Isabelle
  imports Main "HOL-Library.Word"
begin

section \<open>Go values, errors and formatted output\<close>

text \<open>
  Go's \<open>int64\<close> is a 64-bit two's-complement integer: \<open>+\<close> and \<open>-\<close> wrap around and the
  comparisons \<open><\<close>, \<open>>\<close> are signed. The comparisons are written out on \<open>sint\<close>.
\<close>

type_synonym int64 = "64 word"

text \<open>A Go \<open>error\<close> value built by \<open>fmt.Errorf\<close> or \<open>errors.New\<close>: its message.\<close>

datatype go_error = Errorf string

text \<open>
  A call either returns a value or panics (a run-time panic such as a nil dereference,
  or an explicit \<open>panic(...)\<close>); the panic carries its message.
\<close>

datatype 'a outcome = Returns 'a | Panics string

definition nil_dereference :: string where
  "nil_dereference = ''runtime error: invalid memory address or nil pointer dereference''"

text \<open>
  \<open>fmt.Sprintf\<close> restricted to what the source uses: the verbs \<open>%v\<close> and \<open>%s\<close> on strings and
  on \<open>int64\<close> values (decimal, with a leading minus sign), every other character of the
  format copied. A verb without an operand prints Go's \<open>%!v(MISSING)\<close>.
\<close>

datatype go_value = VString string | VInt64 int64

definition digit_char :: "nat \<Rightarrow> char" where
  "digit_char d = ''0123456789'' ! d"

fun nat_to_decimal :: "nat \<Rightarrow> string" where
  "nat_to_decimal n =
     (if n < 10 then [digit_char n] else nat_to_decimal (n div 10) @ [digit_char (n mod 10)])"

declare nat_to_decimal.simps [simp del]

definition int_to_decimal :: "int \<Rightarrow> string" where
  "int_to_decimal i = (if i < 0 then ''-'' @ nat_to_decimal (nat (- i)) else nat_to_decimal (nat i))"

fun format_value :: "go_value \<Rightarrow> string" where
  "format_value (VString s) = s"
| "format_value (VInt64 w) = int_to_decimal (sint w)"

fun Sprintf :: "string \<Rightarrow> go_value list \<Rightarrow> string" where
  "Sprintf [] args = []"
| "Sprintf [c] args = [c]"
| "Sprintf (c # d # rest) args =
     (if c = CHR ''%'' \<and> (d = CHR ''v'' \<or> d = CHR ''s'') then
        (case args of
           [] \<Rightarrow> [c, CHR ''!'', d] @ ''(MISSING)'' @ Sprintf rest []
         | a # as \<Rightarrow> format_value a @ Sprintf rest as)
      else c # Sprintf (d # rest) args)"

section \<open>Signature scheme selection (core/zcncrypto/zcncrypto.go)\<close>

text \<open>
  \<open>NewSignatureScheme\<close> switches on the configuration string. The two constructors
  \<open>NewED255190chainScheme\<close> and \<open>NewBLS0ChainScheme\<close> live in other files of the package;
  the schemes they return are the parameters \<open>ed\<close> and \<open>bls\<close>.
\<close>

definition NewSignatureScheme :: "'s \<Rightarrow> 's \<Rightarrow> string \<Rightarrow> 's outcome" where
  "NewSignatureScheme ed bls sigScheme =
     (if sigScheme = ''ed25519'' then Returns ed
      else if sigScheme = ''bls0chain'' then Returns bls
      else Panics (Sprintf ''unknown signature scheme: %v'' [VString sigScheme]))"

section \<open>The transaction handle (package zcncore)\<close>

text \<open>
  Constants and configuration getters of package zcncore that the file under study reads
  but does not declare: the three status codes, \<open>defaultTxnExpirationSeconds\<close> (already
  converted to \<open>int64\<close>, as the source does at each use), and the values returned by
  \<open>getMinRequiredChainLength()\<close> and \<open>getMinShardersVerify()\<close>.
\<close>

record config =
  StatusUnknown :: int
  StatusSuccess :: int
  StatusError :: int
  defaultTxnExpirationSeconds :: int64
  MinRequiredChainLength :: int64
  MinShardersVerify :: int

text \<open>
  Modelled from the spec: the transaction entity \<open>transaction.Transaction\<close> of
  core/transaction, whose declaration is not among the sources. The fields are those of
  the spec's data model; the prefix \<open>ent\<close> keeps them apart from the handle's fields.
\<close>

record TransactionEntity =
  entHash :: string
  entSignature :: string
  entClientID :: string
  entPublicKey :: string
  entToClientID :: string
  entChainID :: string
  entTransactionType :: int
  entTransactionData :: string
  entValue :: int64
  entTransactionFee :: int64
  entCreationDate :: int64

text \<open>
  The caller's \<open>TransactionCallback\<close> is an interface value: an opaque handle, or nil.
  What a callback does is the caller's business; that it was invoked is an event.
\<close>

type_synonym TransactionCallback = nat

datatype event =
    OnTransactionComplete int
  | OnVerifyComplete int
  | QueryConfirmation int

text \<open>
  \<open>type Transaction struct\<close>. The pointer \<open>txn\<close> is set by every constructor
  (\<open>newTransaction\<close>, \<open>NewMSTransaction\<close>), so it is the entity itself; \<open>txnError\<close>,
  \<open>verifyError\<close> and \<open>txnCb\<close> are interface values that may be nil.
\<close>

record Transaction =
  txn :: TransactionEntity
  txnOut :: string
  txnHash :: string
  txnStatus :: int
  txnError :: "go_error option"
  txnCb :: "TransactionCallback option"
  verifyStatus :: int
  verifyOut :: string
  verifyError :: "go_error option"

definition completeTxn :: "int \<Rightarrow> string \<Rightarrow> go_error option \<Rightarrow> Transaction \<Rightarrow> Transaction \<times> event list" where
  "completeTxn status out err t =
     (let t' = t\<lparr>txnStatus := status, txnOut := out, txnError := err\<rparr>
      in (t', if txnCb t' \<noteq> None then [OnTransactionComplete (txnStatus t')] else []))"

definition completeVerify :: "int \<Rightarrow> string \<Rightarrow> go_error option \<Rightarrow> Transaction \<Rightarrow> Transaction \<times> event list" where
  "completeVerify status out err t =
     (let t' = t\<lparr>verifyStatus := status, verifyOut := out, verifyError := err\<rparr>
      in (t', if txnCb t' \<noteq> None then [OnVerifyComplete (verifyStatus t')] else []))"

subsection \<open>Mutators\<close>

text \<open>Each mutator returns the \<open>error\<close> (nil is \<open>None\<close>) and the handle after the call.\<close>

definition SetTransactionCallback ::
  "config \<Rightarrow> TransactionCallback option \<Rightarrow> Transaction \<Rightarrow> go_error option \<times> Transaction" where
  "SetTransactionCallback c cb t =
     (if txnStatus t \<noteq> StatusUnknown c
      then (Some (Errorf ''transaction already exists. cannot set transaction hash.''), t)
      else (None, t\<lparr>txnCb := cb\<rparr>))"

definition SetTransactionFee ::
  "config \<Rightarrow> int64 \<Rightarrow> Transaction \<Rightarrow> go_error option \<times> Transaction" where
  "SetTransactionFee c txnFee t =
     (if txnStatus t \<noteq> StatusUnknown c
      then (Some (Errorf ''transaction already exists. cannot set transaction fee.''), t)
      else (None, t\<lparr>txn := (txn t)\<lparr>entTransactionFee := txnFee\<rparr>\<rparr>))"

definition SetTransactionHash ::
  "config \<Rightarrow> string \<Rightarrow> Transaction \<Rightarrow> go_error option \<times> Transaction" where
  "SetTransactionHash c hash t =
     (if txnStatus t \<noteq> StatusUnknown c
      then (Some (Errorf ''transaction already exists. cannot set transaction hash.''), t)
      else (None, t\<lparr>txnHash := hash\<rparr>))"

subsection \<open>Error accessors\<close>

text \<open>
  \<open>t.txnError.Error()\<close> on a nil interface value is a nil dereference; on an error it
  is the message.
\<close>

definition error_message :: "go_error option \<Rightarrow> string outcome" where
  "error_message e = (case e of None \<Rightarrow> Panics nil_dereference | Some (Errorf m) \<Rightarrow> Returns m)"

definition GetTransactionError :: "config \<Rightarrow> Transaction \<Rightarrow> string outcome" where
  "GetTransactionError c t =
     (if txnStatus t \<noteq> StatusSuccess c then error_message (txnError t) else Returns '''')"

definition GetVerifyError :: "config \<Rightarrow> Transaction \<Rightarrow> string outcome" where
  "GetVerifyError c t =
     (if verifyStatus t \<noteq> StatusSuccess c then error_message (verifyError t) else Returns '''')"

definition GetVerifyOutput :: "config \<Rightarrow> Transaction \<Rightarrow> string" where
  "GetVerifyOutput c t = (if verifyStatus t = StatusSuccess c then verifyOut t else '''')"

text \<open>
  \<open>GetTransactionHash\<close> caches the hash found under \<open>entity.hash\<close> of the miners' pooled
  response. The two \<open>json.Unmarshal\<close> calls and the type assertion are the parameter
  \<open>entity_hash\<close>: \<open>None\<close> when the entity does not parse or has no string \<open>hash\<close>
  (both leave \<open>txnHash\<close> as it is).
\<close>

definition GetTransactionHash ::
  "config \<Rightarrow> (string \<Rightarrow> string option) \<Rightarrow> Transaction \<Rightarrow> string \<times> Transaction" where
  "GetTransactionHash c entity_hash t =
     (if txnHash t \<noteq> '''' then (txnHash t, t)
      else if txnStatus t \<noteq> StatusSuccess c then ('''', t)
      else (case entity_hash (txnOut t) of
              None \<Rightarrow> (txnHash t, t)
            | Some hash \<Rightarrow> (hash, t\<lparr>txnHash := hash\<rparr>)))"

section \<open>Block headers and confirmations\<close>

record blockHeader =
  Version :: string
  CreationDate :: int64
  Hash :: string
  MinerId :: string
  Round :: int64
  RoundRandomSeed :: int64
  MerkleTreeRoot :: string
  StateHash :: string
  ReceiptMerkleTreeRoot :: string
  NumTxns :: int64

text \<open>\<open>&blockHeader{}\<close>: every field at its zero value.\<close>

definition blockHeader_zero :: blockHeader where
  "blockHeader_zero =
     \<lparr>Version = '''', CreationDate = 0, Hash = '''', MinerId = '''', Round = 0,
      RoundRandomSeed = 0, MerkleTreeRoot = '''', StateHash = '''',
      ReceiptMerkleTreeRoot = '''', NumTxns = 0\<rparr>"

text \<open>
  \<open>type confirmation struct\<close>, with the prefix \<open>cfm\<close> on the field names it shares with
  \<open>blockHeader\<close>. \<open>Transaction\<close>, \<open>MerkleTreePath\<close> and \<open>ReceiptMerkleTreePath\<close> are
  pointers: nil when the decoded JSON has no such member. The type \<open>'p\<close> stands for
  \<open>util.MTPath\<close>, declared outside the sources.
\<close>

record 'p confirmation =
  cfmVersion :: string
  cfmHash :: string
  BlockHash :: string
  PreviousBlockHash :: string
  cfmTransaction :: "TransactionEntity option"
  cfmCreationDate :: int64
  MinerID :: string
  cfmRound :: int64
  cfmStatus :: int
  cfmRoundRandomSeed :: int64
  cfmMerkleTreeRoot :: string
  MerkleTreePath :: "'p option"
  cfmReceiptMerkleTreeRoot :: string
  ReceiptMerkleTreePath :: "'p option"

text \<open>
  \<open>isBlockExtends\<close>. The chain hash \<open>encryption.Hash\<close> is the parameter \<open>H\<close>.
\<close>

definition isBlockExtends :: "(string \<Rightarrow> string) \<Rightarrow> string \<Rightarrow> blockHeader \<Rightarrow> bool" where
  "isBlockExtends H prevHash block =
     (let data = Sprintf ''%v:%v:%v:%v:%v:%v:%v''
                   [VString (MinerId block), VString prevHash, VInt64 (CreationDate block),
                    VInt64 (Round block), VInt64 (RoundRandomSeed block),
                    VString (MerkleTreeRoot block), VString (ReceiptMerkleTreeRoot block)];
          h = H data
      in if Hash block = h then True else False)"

text \<open>
  \<open>getBlockHeaderFromTransactionConfirmation\<close>. \<open>cfmBlock\<close> is the decoded response, a
  map from member name to raw JSON. Parameters, all declared outside the sources:
  \<open>unmarshal\<close> is \<open>json.Unmarshal\<close> into a \<open>confirmation\<close>, \<open>VerifyMerklePath\<close> is the
  function of that name in core/util, and \<open>receiptHash txn\<close> is
  \<open>transaction.NewTransactionReceipt(txn).GetHash()\<close>. The result is the pair
  \<open>(*blockHeader, error)\<close>, of which exactly one is nil: \<open>Inr block\<close> or \<open>Inl err\<close>. The
  source's parameter \<open>txnHash\<close> is \<open>expectedHash\<close> here (the handle has a field of that name).
\<close>

definition getBlockHeaderFromTransactionConfirmation ::
  "(string \<Rightarrow> string) \<Rightarrow> (string \<Rightarrow> 'p option \<Rightarrow> string \<Rightarrow> bool) \<Rightarrow> (TransactionEntity \<Rightarrow> string) \<Rightarrow>
   (string \<Rightarrow> go_error + 'p confirmation) \<Rightarrow> string \<Rightarrow> (string \<rightharpoonup> string) \<Rightarrow>
   (go_error + blockHeader) outcome" where
  "getBlockHeaderFromTransactionConfirmation H VerifyMerklePath receiptHash unmarshal expectedHash cfmBlock =
     (case cfmBlock ''confirmation'' of
        Some cfmBytes \<Rightarrow>
          (case unmarshal cfmBytes of
             Inl (Errorf err) \<Rightarrow>
               Returns (Inl (Errorf (Sprintf ''txn confirmation parse error. %s'' [VString err])))
           | Inr cfm \<Rightarrow>
               (case cfmTransaction cfm of
                  None \<Rightarrow> Panics nil_dereference
                | Some cfmTxn \<Rightarrow>
                    if expectedHash \<noteq> entHash cfmTxn then
                      Returns (Inl (Errorf (Sprintf ''invalid transaction hash. Expected: %s. Received: %s''
                                              [VString expectedHash, VString (entHash cfmTxn)])))
                    else if \<not> VerifyMerklePath (entHash cfmTxn) (MerkleTreePath cfm) (cfmMerkleTreeRoot cfm) then
                      Returns (Inl (Errorf ''txn merkle validation failed.''))
                    else if \<not> VerifyMerklePath (receiptHash cfmTxn) (ReceiptMerkleTreePath cfm)
                                 (cfmReceiptMerkleTreeRoot cfm) then
                      Returns (Inl (Errorf ''txn receipt cmerkle validation failed.''))
                    else
                      (let prevBlockHash = PreviousBlockHash cfm;
                           block = blockHeader_zero
                             \<lparr>MinerId := MinerID cfm, Hash := BlockHash cfm,
                              CreationDate := cfmCreationDate cfm, Round := cfmRound cfm,
                              RoundRandomSeed := cfmRoundRandomSeed cfm,
                              MerkleTreeRoot := cfmMerkleTreeRoot cfm,
                              ReceiptMerkleTreeRoot := cfmReceiptMerkleTreeRoot cfm\<rparr>
                       in if isBlockExtends H prevBlockHash block then Returns (Inr block)
                          else Returns (Inl (Errorf ''block hash verification failed in confirmation'')))))
      | None \<Rightarrow> Returns (Inl (Errorf ''txn confirmation not found.'')))"

section \<open>Walking the chain forward\<close>

text \<open>
  One pass through the body of \<open>validateChain\<close>'s loop asks for the header of \<open>round\<close>
  from one sharder and, if that fails, from \<open>getMinShardersVerify()\<close> sharders.
  \<open>getBlockInfoByRound\<close> talks to the network, so what it answers is the environment:
  for every pass, the answer each of the two calls would give for the round asked
  (\<open>None\<close> is its error \<open>round info not found.\<close>).
\<close>

record round_responses =
  rr_single :: "int64 \<Rightarrow> blockHeader option"
  rr_fallback :: "int64 \<Rightarrow> blockHeader option"

definition fetch_next_block :: "round_responses \<Rightarrow> int64 \<Rightarrow> blockHeader option" where
  "fetch_next_block e round =
     (case rr_single e round of Some nextBlock \<Rightarrow> Some nextBlock | None \<Rightarrow> rr_fallback e round)"

text \<open>
  The loop, one equation per pass. The environment lists the passes; when it is used up
  the loop has not returned yet (\<open>None\<close>): a stalled chain keeps it waiting for ever. The
  result is the returned boolean with the final values of the locals \<open>currentBlockHash\<close>
  and \<open>round\<close>.
\<close>

fun validateChain_loop ::
  "(string \<Rightarrow> string) \<Rightarrow> int64 \<Rightarrow> int64 \<Rightarrow> round_responses list \<Rightarrow> string \<Rightarrow> int64 \<Rightarrow>
   (bool \<times> string \<times> int64) option" where
  "validateChain_loop H minLen confirmRound [] currentBlockHash round = None"
| "validateChain_loop H minLen confirmRound (e # es) currentBlockHash round =
     (case fetch_next_block e round of
        None \<Rightarrow> validateChain_loop H minLen confirmRound es currentBlockHash round
      | Some nextBlock \<Rightarrow>
          (let extends = isBlockExtends H currentBlockHash nextBlock;
               currentBlockHash' = (if extends then Hash nextBlock else currentBlockHash);
               round' = (if extends then round + 1 else round)
           in if sint round' > sint confirmRound \<and> sint (round' - confirmRound) < sint minLen
              then validateChain_loop H minLen confirmRound es currentBlockHash' round'
              else if sint round' < sint confirmRound then Some (False, currentBlockHash', round')
              else Some (True, currentBlockHash', round')))"

definition validateChain ::
  "config \<Rightarrow> (string \<Rightarrow> string) \<Rightarrow> round_responses list \<Rightarrow> blockHeader \<Rightarrow> bool option" where
  "validateChain c H env confirmBlock =
     map_option fst
       (validateChain_loop H (MinRequiredChainLength c) (Round confirmBlock) env
          (Hash confirmBlock) (Round confirmBlock + 1))"

section \<open>Expiration\<close>

text \<open>
  Modelled from the spec: \<open>util.MinInt64\<close> and \<open>util.MaxInt64\<close> of core/util, which is
  not among the sources; the spec's expiration rule reads the first as \<open>min\<close>, and the
  second is its mirror image.
\<close>

definition MinInt64 :: "int64 \<Rightarrow> int64 \<Rightarrow> int64" where
  "MinInt64 x y = (if sint x < sint y then x else y)"

definition MaxInt64 :: "int64 \<Rightarrow> int64 \<Rightarrow> int64" where
  "MaxInt64 x y = (if sint x > sint y then x else y)"

text \<open>
  \<open>isTransactionExpired\<close>; the \<open>time.Sleep\<close> before \<open>return false\<close> only delays the caller.
\<close>

definition isTransactionExpired :: "config \<Rightarrow> Transaction \<Rightarrow> int64 \<Rightarrow> int64 \<Rightarrow> bool" where
  "isTransactionExpired c t lfbCreationTime currentTime =
     (let lfbCreationTime' = (if lfbCreationTime = 0 then currentTime else lfbCreationTime)
      in if sint (MinInt64 lfbCreationTime' currentTime)
              > sint (entCreationDate (txn t) + defaultTxnExpirationSeconds c)
         then True else False)"

section \<open>The confirmation loop of Verify\<close>

text \<open>
  \<open>getTransactionConfirmation\<close> queries sharders, so its answer is the environment. It
  returns \<open>(blockHdr, confirmation, &lfb, err)\<close> with \<open>err\<close> nil exactly when some sharder
  sent a confirmation that passed \<open>getBlockHeaderFromTransactionConfirmation\<close>:
  \<open>Found blockHdr confirmation\<close> (the caller does not read \<open>lfb\<close> then), or
  \<open>NotFound lfb\<close> with the latest finalized block the sharders reported (the zero header
  when none did).
\<close>

datatype confirmation_result =
    Found blockHeader "string \<rightharpoonup> string"
  | NotFound blockHeader

text \<open>
  What one pass of the loop meets: the answer to the probe of one sharder, the clock
  \<open>common.Now()\<close> read after a failed probe, the answer the query of
  \<open>getMinShardersVerify()\<close> sharders would give, and the passes of \<open>validateChain\<close>.
\<close>

record verify_round =
  vr_probe :: confirmation_result
  vr_now :: int64
  vr_quorum :: confirmation_result
  vr_chain :: "round_responses list"

text \<open>
  A pass ends in \<open>continue\<close> (or falls through to the next pass), in \<open>return\<close> after
  \<open>completeVerify\<close>, or never ends because \<open>validateChain\<close> does not return.
\<close>

datatype step = Continue | Return Transaction | Waiting

definition dquote :: "string \<Rightarrow> string" where
  "dquote s = CHR 0x22 # s @ [CHR 0x22]"

definition verify_failed :: go_error where
  "verify_failed = Errorf (''{'' @ dquote ''error'' @ '': '' @ dquote ''verify transaction failed'' @ ''}'')"

definition marshal_failed :: go_error where
  "marshal_failed =
     Errorf (''{'' @ dquote ''error'' @ '': '' @ dquote ''transaction confirmation json marshal error'')"

text \<open>
  The block \<open>if t.isTransactionExpired(...) { t.completeVerify(StatusError, ...); return }; continue\<close>,
  which the source has twice.
\<close>

definition expire_or_retry :: "config \<Rightarrow> Transaction \<Rightarrow> blockHeader \<Rightarrow> int64 \<Rightarrow> event list \<times> step" where
  "expire_or_retry c t lfb tn =
     (if isTransactionExpired c t (CreationDate lfb) tn
      then (case completeVerify (StatusError c) '''' (Some verify_failed) t of
              (t', evs) \<Rightarrow> (evs, Return t'))
      else ([], Continue))"

text \<open>
  The end of the loop body, from \<open>valid := validateChain(confirmBlock)\<close> on.
  \<open>json.Marshal\<close> of the confirmation is the parameter \<open>marshal\<close>.
\<close>

definition validate_and_report ::
  "config \<Rightarrow> (string \<Rightarrow> string) \<Rightarrow> ((string \<rightharpoonup> string) \<Rightarrow> go_error + string) \<Rightarrow> Transaction \<Rightarrow>
   round_responses list \<Rightarrow> blockHeader \<Rightarrow> (string \<rightharpoonup> string) \<Rightarrow> event list \<times> step" where
  "validate_and_report c H marshal t env confirmBlock confirmation =
     (case validateChain c H env confirmBlock of
        None \<Rightarrow> ([], Waiting)
      | Some valid \<Rightarrow>
          if valid then
            (case marshal confirmation of
               Inl err \<Rightarrow>
                 (case completeVerify (StatusError c) '''' (Some marshal_failed) t of
                    (t', evs) \<Rightarrow> (evs, Return t'))
             | Inr output \<Rightarrow>
                 (case completeVerify (StatusSuccess c) output None t of
                    (t', evs) \<Rightarrow> (evs, Return t')))
          else ([], Continue))"

definition after_events :: "event list \<Rightarrow> event list \<times> step \<Rightarrow> event list \<times> step" where
  "after_events evs r = (evs @ fst r, snd r)"

text \<open>
  One pass of the loop in \<open>Verify\<close>'s goroutine. Each call of
  \<open>getTransactionConfirmation(n, ...)\<close> is recorded as the event \<open>QueryConfirmation n\<close>.
\<close>

definition Verify_iteration ::
  "config \<Rightarrow> (string \<Rightarrow> string) \<Rightarrow> ((string \<rightharpoonup> string) \<Rightarrow> go_error + string) \<Rightarrow> Transaction \<Rightarrow>
   verify_round \<Rightarrow> event list \<times> step" where
  "Verify_iteration c H marshal t e =
     (case vr_probe e of
        Found confirmBlock confirmation \<Rightarrow>
          after_events [QueryConfirmation 1]
            (validate_and_report c H marshal t (vr_chain e) confirmBlock confirmation)
      | NotFound lfb \<Rightarrow>
          (let tn = vr_now e
           in if sint (MaxInt64 (CreationDate lfb) tn)
                   < sint (entCreationDate (txn t) + defaultTxnExpirationSeconds c)
              then
                (case vr_quorum e of
                   Found confirmBlock confirmation \<Rightarrow>
                     after_events [QueryConfirmation 1, QueryConfirmation (MinShardersVerify c)]
                       (validate_and_report c H marshal t (vr_chain e) confirmBlock confirmation)
                 | NotFound lfb' \<Rightarrow>
                     after_events [QueryConfirmation 1, QueryConfirmation (MinShardersVerify c)]
                       (expire_or_retry c t lfb' tn))
              else after_events [QueryConfirmation 1] (expire_or_retry c t lfb tn)))"

text \<open>
  The loop over the passes the environment provides: the handle after \<open>completeVerify\<close>
  with the events in order, or \<open>None\<close> while the goroutine is still running.
\<close>

fun Verify_loop ::
  "config \<Rightarrow> (string \<Rightarrow> string) \<Rightarrow> ((string \<rightharpoonup> string) \<Rightarrow> go_error + string) \<Rightarrow> Transaction \<Rightarrow>
   verify_round list \<Rightarrow> (Transaction \<times> event list) option" where
  "Verify_loop c H marshal t [] = None"
| "Verify_loop c H marshal t (e # es) =
     (case Verify_iteration c H marshal t e of
        (evs, Continue) \<Rightarrow>
          (case Verify_loop c H marshal t es of
             None \<Rightarrow> None
           | Some (t', evs') \<Rightarrow> Some (t', evs @ evs'))
      | (evs, Return t') \<Rightarrow> Some (t', evs)
      | (evs, Waiting) \<Rightarrow> None)"

text \<open>
  \<open>Verify\<close> up to the \<open>go\<close> statement: the error it returns, the handle, and whether the
  goroutine was started. \<open>clock\<close> is \<open>common.Now()\<close>.
\<close>

definition Verify ::
  "config \<Rightarrow> (string \<Rightarrow> string option) \<Rightarrow> int64 \<Rightarrow> Transaction \<Rightarrow> go_error option \<times> Transaction \<times> bool" where
  "Verify c entity_hash clock t =
     (if txnHash t = '''' \<and> txnStatus t = StatusUnknown c
      then (Some (Errorf ''invalid transaction. cannot be verified.''), t, False)
      else
        (case (if txnHash t = '''' \<and> txnStatus t = StatusSuccess c
               then GetTransactionHash c entity_hash t else (txnHash t, t)) of
           (h, t1) \<Rightarrow>
             if txnHash t = '''' \<and> txnStatus t = StatusSuccess c \<and> h = ''''
             then (Some (Errorf ''invalid transaction. cannot be verified.''), t1, False)
             else
               (let t2 = (if entCreationDate (txn t1) = 0
                          then t1\<lparr>txn := (txn t1)\<lparr>entCreationDate := clock\<rparr>\<rparr> else t1)
                in (None, t2, True))))"

text \<open>
  A whole call: what \<open>Verify\<close> returns to its caller, and what the goroutine (if one was
  started) leaves behind once it has finished: the handle and the events.
\<close>

definition Verify_execution ::
  "config \<Rightarrow> (string \<Rightarrow> string option) \<Rightarrow> int64 \<Rightarrow> (string \<Rightarrow> string) \<Rightarrow>
   ((string \<rightharpoonup> string) \<Rightarrow> go_error + string) \<Rightarrow> verify_round list \<Rightarrow> Transaction \<Rightarrow>
   go_error option \<times> (Transaction \<times> event list) option" where
  "Verify_execution c entity_hash clock H marshal env t =
     (case Verify c entity_hash clock t of
        (err, t', started) \<Rightarrow>
          (err, if started then Verify_loop c H marshal t' env else Some (t', [])))"

section \<open>The properties in the specification's words\<close>

text \<open>The colon-joined text of a list of fields.\<close>

fun colon_join :: "string list \<Rightarrow> string" where
  "colon_join [] = []"
| "colon_join [x] = x"
| "colon_join (x # y # zs) = x @ '':'' @ colon_join (y # zs)"

text \<open>
  Invariant I4 of a block header \<open>B\<close> with predecessor hash \<open>P\<close>: the hash of
  \<open>miner_id:previous_hash:creation_date:round:round_random_seed:merkle_tree_root:receipt_merkle_tree_root\<close>.
\<close>

definition block_hash_I4 :: "(string \<Rightarrow> string) \<Rightarrow> string \<Rightarrow> blockHeader \<Rightarrow> string" where
  "block_hash_I4 H P B =
     H (colon_join [MinerId B, P, int_to_decimal (sint (CreationDate B)),
                    int_to_decimal (sint (Round B)), int_to_decimal (sint (RoundRandomSeed B)),
                    MerkleTreeRoot B, ReceiptMerkleTreeRoot B])"

text \<open>
  A list of headers in which each one extends the one before it, the first extending
  the block with hash \<open>prev\<close>.
\<close>

fun extends_chain :: "(string \<Rightarrow> string) \<Rightarrow> string \<Rightarrow> blockHeader list \<Rightarrow> bool" where
  "extends_chain H prev [] = True"
| "extends_chain H prev (b # bs) = (isBlockExtends H prev b \<and> extends_chain H (Hash b) bs)"

text \<open>The hash of the last block of a chain that starts after the block with hash \<open>prev\<close>.\<close>

fun chain_tip :: "string \<Rightarrow> blockHeader list \<Rightarrow> string" where
  "chain_tip prev [] = prev"
| "chain_tip prev (b # bs) = chain_tip (Hash b) bs"

text \<open>
  The error kind \<open>AlreadySubmitted\<close>: the errors whose message starts with
  \<open>transaction already exists.\<close>
\<close>

definition AlreadySubmitted :: "go_error \<Rightarrow> bool" where
  "AlreadySubmitted e = (case e of Errorf m \<Rightarrow> take 27 m = ''transaction already exists.'')"

text \<open>
  The headers \<open>bs\<close> are, in order, answers of the sharders to the requests for the
  rounds \<open>r\<close>, \<open>r + 1\<close>, ...
\<close>

fun fetched_in_order :: "round_responses list \<Rightarrow> int64 \<Rightarrow> blockHeader list \<Rightarrow> bool" where
  "fetched_in_order env r [] = True"
| "fetched_in_order env r (b # bs) =
     ((\<exists>e \<in> set env. fetch_next_block e r = Some b) \<and> fetched_in_order env (r + 1) bs)"

text \<open>The sizes of the confirmation queries among the events, in order.\<close>

fun query_sizes :: "event list \<Rightarrow> int list" where
  "query_sizes [] = []"
| "query_sizes (QueryConfirmation n # evs) = n # query_sizes evs"
| "query_sizes (ev # evs) = query_sizes evs"

section \<open>Example values\<close>

text \<open>
  A configuration with the status codes \<open>-1\<close>, \<open>0\<close>, \<open>2\<close>, an expiration window of 75
  seconds, a required chain length of 2 and a quorum of 3 sharders; a transaction handle
  as \<open>newTransaction\<close> leaves it, with a callback registered.
\<close>

definition example_config :: config where
  "example_config =
     \<lparr>StatusUnknown = - 1, StatusSuccess = 0, StatusError = 2,
      defaultTxnExpirationSeconds = 75, MinRequiredChainLength = 2, MinShardersVerify = 3\<rparr>"

definition example_entity :: TransactionEntity where
  "example_entity =
     \<lparr>entHash = '''', entSignature = '''', entClientID = ''client'', entPublicKey = ''key'',
      entToClientID = '''', entChainID = ''chain'', entTransactionType = 0,
      entTransactionData = '''', entValue = 0, entTransactionFee = 0, entCreationDate = 0\<rparr>"

definition fresh_transaction :: Transaction where
  "fresh_transaction =
     \<lparr>txn = example_entity, txnOut = '''', txnHash = '''', txnStatus = - 1, txnError = None,
      txnCb = Some 7, verifyStatus = - 1, verifyOut = '''', verifyError = None\<rparr>"

text \<open>
  A hash function for the examples, standing in for \<open>encryption.Hash\<close>, and a
  \<open>json.Marshal\<close> that succeeds.
\<close>

definition example_hash :: "string \<Rightarrow> string" where
  "example_hash s = ''H('' @ s @ '')''"

definition example_marshal :: "(string \<rightharpoonup> string) \<Rightarrow> go_error + string" where
  "example_marshal m = Inr ''out''"

text \<open>
  A handle after a successful submission at time 1000: with the window of 75 seconds it
  expires once the clock and the latest finalized block have both passed 1075.
\<close>

definition submitted_transaction :: Transaction where
  "submitted_transaction =
     fresh_transaction\<lparr>txn := example_entity\<lparr>entCreationDate := 1000\<rparr>, txnOut := ''body'',
                        txnHash := ''abc'', txnStatus := 0\<rparr>"

text \<open>
  A confirmation block of round 10 and a header of round 11 that extends it; a chain
  walk in which the sharders answer once, with that header.
\<close>

definition confirm_block :: blockHeader where
  "confirm_block = blockHeader_zero\<lparr>CreationDate := 1010, Hash := ''c0'', MinerId := ''m0'', Round := 10\<rparr>"

definition next_block :: blockHeader where
  "next_block =
     blockHeader_zero\<lparr>CreationDate := 1020, Hash := example_hash ''m1:c0:1020:11:7:mr:rr'',
                      MinerId := ''m1'', Round := 11, RoundRandomSeed := 7,
                      MerkleTreeRoot := ''mr'', ReceiptMerkleTreeRoot := ''rr''\<rparr>"

definition one_header_walk :: "round_responses list" where
  "one_header_walk =
     [\<lparr>rr_single = (\<lambda>r. if r = 11 then Some next_block else None), rr_fallback = (\<lambda>r. None)\<rparr>]"

definition example_round :: verify_round where
  "example_round =
     \<lparr>vr_probe = Found confirm_block [''confirmation'' \<mapsto> ''{}''], vr_now = 1030,
      vr_quorum = NotFound blockHeader_zero, vr_chain = one_header_walk\<rparr>"

text \<open>
  Three passes in which the probe finds no confirmation. In \<open>early_round\<close> the clock and
  the latest finalized block are both inside the window. In \<open>late_round\<close> the clock
  (1080) has passed the window while the latest finalized block (1070) has not. In
  \<open>boundary_round\<close> no sharder reported a block and the clock stands at 1075 exactly.
\<close>

definition early_round :: verify_round where
  "early_round =
     \<lparr>vr_probe = NotFound (blockHeader_zero\<lparr>CreationDate := 1040\<rparr>), vr_now = 1030,
      vr_quorum = NotFound (blockHeader_zero\<lparr>CreationDate := 1041\<rparr>), vr_chain = []\<rparr>"

definition late_round :: verify_round where
  "late_round =
     \<lparr>vr_probe = NotFound (blockHeader_zero\<lparr>CreationDate := 1070\<rparr>), vr_now = 1080,
      vr_quorum = Found confirm_block [''confirmation'' \<mapsto> ''{}''], vr_chain = one_header_walk\<rparr>"

definition boundary_round :: verify_round where
  "boundary_round =
     \<lparr>vr_probe = NotFound blockHeader_zero, vr_now = 1075,
      vr_quorum = Found confirm_block [''confirmation'' \<mapsto> ''{}''], vr_chain = one_header_walk\<rparr>"

text \<open>
  A decoded confirmation whose JSON had no \<open>txn\<close> member (the field is tagged
  \<open>omitempty\<close>): the pointer \<open>Transaction\<close> is nil.
\<close>

definition confirmation_without_txn :: "string list confirmation" where
  "confirmation_without_txn =
     \<lparr>cfmVersion = ''1.0'', cfmHash = ''abc'', BlockHash = ''c0'', PreviousBlockHash = ''p0'',
      cfmTransaction = None, cfmCreationDate = 1010, MinerID = ''m0'', cfmRound = 10, cfmStatus = 1,
      cfmRoundRandomSeed = 7, cfmMerkleTreeRoot = ''mr'', MerkleTreePath = Some [''n1''],
      cfmReceiptMerkleTreeRoot = ''rr'', ReceiptMerkleTreePath = Some [''n2'']\<rparr>"

section \<open>Verified properties\<close>

subsection \<open>Signature scheme selection\<close>

text \<open>
  C8. Every configuration string other than \<open>ed25519\<close> and \<open>bls0chain\<close> makes
  \<open>NewSignatureScheme\<close> panic (with the message \<open>unknown signature scheme: \<close> followed by
  the string); for these two strings it returns the scheme and does not panic.
\<close>

theorem NewSignatureScheme_fails_fast:
  "(s \<noteq> ''ed25519'' \<and> s \<noteq> ''bls0chain'' \<longrightarrow>
      NewSignatureScheme ed bls s = Panics (''unknown signature scheme: '' @ s))
   \<and> NewSignatureScheme ed bls ''ed25519'' = Returns ed
   \<and> NewSignatureScheme ed bls ''bls0chain'' = Returns bls"
  by (simp add: NewSignatureScheme_def)

theorem NewSignatureScheme_fails_fast_witness:
  "''rsa'' \<noteq> ''ed25519'' \<and> ''rsa'' \<noteq> ''bls0chain''
   \<and> NewSignatureScheme (0::nat) 1 ''rsa'' = Panics ''unknown signature scheme: rsa''
   \<and> NewSignatureScheme (0::nat) 1 ''ed25519'' = Returns 0
   \<and> NewSignatureScheme (0::nat) 1 ''bls0chain'' = Returns 1"
  using NewSignatureScheme_fails_fast [of "''rsa''" "0::nat" 1] by simp

subsection \<open>Mutators and accessors of the handle\<close>

text \<open>
  C7. When the submission status is no longer \<open>StatusUnknown\<close>, each of
  \<open>SetTransactionCallback\<close>, \<open>SetTransactionFee\<close> and \<open>SetTransactionHash\<close> returns an
  \<open>AlreadySubmitted\<close> error and leaves the handle (so the callback, the fee and the hash)
  as it was; when the status is \<open>StatusUnknown\<close>, each sets its field and returns nil.
\<close>

theorem mutators_guarded_by_status:
  "(txnStatus t \<noteq> StatusUnknown c \<longrightarrow>
      (\<exists>e. AlreadySubmitted e \<and> SetTransactionCallback c cb t = (Some e, t))
    \<and> (\<exists>e. AlreadySubmitted e \<and> SetTransactionFee c fee t = (Some e, t))
    \<and> (\<exists>e. AlreadySubmitted e \<and> SetTransactionHash c h t = (Some e, t)))
   \<and> (txnStatus t = StatusUnknown c \<longrightarrow>
      SetTransactionCallback c cb t = (None, t\<lparr>txnCb := cb\<rparr>)
    \<and> SetTransactionFee c fee t = (None, t\<lparr>txn := (txn t)\<lparr>entTransactionFee := fee\<rparr>\<rparr>)
    \<and> SetTransactionHash c h t = (None, t\<lparr>txnHash := h\<rparr>))"
  by (simp add: SetTransactionCallback_def SetTransactionFee_def SetTransactionHash_def
        AlreadySubmitted_def)

theorem mutators_guarded_by_status_witness:
  "txnStatus (fresh_transaction\<lparr>txnStatus := 0\<rparr>) \<noteq> StatusUnknown example_config
   \<and> fst (SetTransactionFee example_config 5 (fresh_transaction\<lparr>txnStatus := 0\<rparr>)) \<noteq> None
   \<and> entTransactionFee (txn (snd (SetTransactionFee example_config 5 (fresh_transaction\<lparr>txnStatus := 0\<rparr>)))) = 0
   \<and> txnStatus fresh_transaction = StatusUnknown example_config
   \<and> fst (SetTransactionFee example_config 5 fresh_transaction) = None
   \<and> entTransactionFee (txn (snd (SetTransactionFee example_config 5 fresh_transaction))) = 5
   \<and> txnHash (snd (SetTransactionHash example_config ''abc'' fresh_transaction)) = ''abc''
   \<and> txnCb (snd (SetTransactionCallback example_config (Some 9) fresh_transaction)) = Some 9"
  using mutators_guarded_by_status [of "fresh_transaction\<lparr>txnStatus := 0\<rparr>" example_config "Some 9" 5 "''abc''"]
        mutators_guarded_by_status [of fresh_transaction example_config "Some 9" 5 "''abc''"]
  by (auto simp: fresh_transaction_def example_config_def example_entity_def)

text \<open>
  C9, as amended. On a handle whose \<open>txnError\<close> is nil and whose submission status is not
  \<open>StatusSuccess\<close>, \<open>GetTransactionError\<close> dereferences nil and panics; on a handle whose
  \<open>verifyError\<close> is nil and whose verify status is not \<open>StatusSuccess\<close>, \<open>GetVerifyError\<close>
  does. With the status \<open>StatusSuccess\<close> each accessor returns the empty string, whatever
  the error field holds.
\<close>

theorem error_accessors_nil_panic:
  "(txnError t = None \<and> txnStatus t \<noteq> StatusSuccess c \<longrightarrow> GetTransactionError c t = Panics nil_dereference)
   \<and> (verifyError t = None \<and> verifyStatus t \<noteq> StatusSuccess c \<longrightarrow> GetVerifyError c t = Panics nil_dereference)
   \<and> (txnStatus t = StatusSuccess c \<longrightarrow> GetTransactionError c t = Returns '''')
   \<and> (verifyStatus t = StatusSuccess c \<longrightarrow> GetVerifyError c t = Returns '''')"
  by (simp add: GetTransactionError_def GetVerifyError_def error_message_def)

theorem error_accessors_nil_panic_witness:
  "txnError fresh_transaction = None \<and> txnStatus fresh_transaction \<noteq> StatusSuccess example_config
   \<and> GetTransactionError example_config fresh_transaction = Panics nil_dereference
   \<and> verifyError fresh_transaction = None \<and> verifyStatus fresh_transaction \<noteq> StatusSuccess example_config
   \<and> GetVerifyError example_config fresh_transaction = Panics nil_dereference"
  using error_accessors_nil_panic [of fresh_transaction example_config]
  by (simp add: fresh_transaction_def example_config_def)

text \<open>
  The claim as first stated asks for the panic on every handle without a recorded
  submission error. A handle that a successful submission completed
  (\<open>completeTxn(StatusSuccess, body, nil)\<close>) has no recorded error either, and there
  \<open>GetTransactionError\<close> returns the empty string.
\<close>

theorem error_accessors_nil_counterexample:
  "txnError (fst (completeTxn (StatusSuccess example_config) ''body'' None fresh_transaction)) = None
   \<and> GetTransactionError example_config
       (fst (completeTxn (StatusSuccess example_config) ''body'' None fresh_transaction)) = Returns ''''"
  by (simp add: GetTransactionError_def completeTxn_def fresh_transaction_def example_config_def)

text \<open>
  C10. On a handle with an empty transaction hash and submission status \<open>StatusUnknown\<close>,
  \<open>Verify\<close> returns an error at once: no goroutine is started, so there is no query and
  no callback, and the handle (with its verify status and outputs) is unchanged.
\<close>

theorem Verify_without_hash_returns_error:
  "txnHash t = '''' \<Longrightarrow> txnStatus t = StatusUnknown c \<Longrightarrow>
     Verify c entity_hash clock t = (Some (Errorf ''invalid transaction. cannot be verified.''), t, False)
   \<and> Verify_execution c entity_hash clock H marshal env t
       = (Some (Errorf ''invalid transaction. cannot be verified.''), Some (t, []))"
  by (simp add: Verify_def Verify_execution_def)

theorem Verify_without_hash_returns_error_witness:
  "txnHash fresh_transaction = '''' \<and> txnStatus fresh_transaction = StatusUnknown example_config
   \<and> Verify_execution example_config (\<lambda>_. None) 1000 id (\<lambda>_. Inr '''') [] fresh_transaction
       = (Some (Errorf ''invalid transaction. cannot be verified.''), Some (fresh_transaction, []))"
proof -
  have h: "txnHash fresh_transaction = ''''" by (simp add: fresh_transaction_def)
  have s: "txnStatus fresh_transaction = StatusUnknown example_config"
    by (simp add: fresh_transaction_def example_config_def)
  show ?thesis
    using Verify_without_hash_returns_error [OF h s, of "\<lambda>_. None" 1000 id "\<lambda>_. Inr ''''" "[]"] h s
    by simp
qed

subsection \<open>The block hash\<close>

lemma isBlockExtends_format:
  "Sprintf ''%v:%v:%v:%v:%v:%v:%v''
     [VString a, VString b, VInt64 x, VInt64 y, VInt64 z, VString d, VString e]
   = colon_join [a, b, int_to_decimal (sint x), int_to_decimal (sint y), int_to_decimal (sint z), d, e]"
  by simp

text \<open>
  C2. For every block header \<open>B\<close> and predecessor hash \<open>P\<close>, \<open>isBlockExtends\<close> returns
  true if and only if the hash of \<open>B\<close> is the chain hash of the colon-joined text
  \<open>miner_id:P:creation_date:round:round_random_seed:merkle_tree_root:receipt_merkle_tree_root\<close>,
  the numbers in decimal, the fields in this order.
\<close>

theorem isBlockExtends_iff_I4:
  "isBlockExtends H P B \<longleftrightarrow> Hash B = block_hash_I4 H P B"
  by (simp add: isBlockExtends_def block_hash_I4_def Let_def isBlockExtends_format
        del: Sprintf.simps colon_join.simps)

subsection \<open>Expiration\<close>

lemma sint_add_no_overflow:
  fixes a b :: int64
  assumes "- (2 ^ 63) \<le> sint a + sint b" "sint a + sint b < 2 ^ 63"
  shows "sint (a + b) = sint a + sint b"
  using assms by (simp add: sint_word_ariths signed_take_bit_int_eq_self)

text \<open>
  C5. For all \<open>lfb_creation_time\<close> and current time, \<open>isTransactionExpired\<close> holds if and
  only if \<open>min(lfb_creation_time, now) > creation_date + defaultTxnExpirationSeconds\<close>,
  with \<open>lfb_creation_time\<close> replaced by the current time when it is zero. The sum is the
  \<open>int64\<close> sum of the source; as long as it does not overflow it is the sum of integers.
\<close>

theorem isTransactionExpired_iff:
  "(isTransactionExpired c t lfb_creation_time clock \<longleftrightarrow>
      min (sint (if lfb_creation_time = 0 then clock else lfb_creation_time)) (sint clock)
        > sint (entCreationDate (txn t) + defaultTxnExpirationSeconds c))
   \<and> (- (2 ^ 63) \<le> sint (entCreationDate (txn t)) + sint (defaultTxnExpirationSeconds c)
      \<and> sint (entCreationDate (txn t)) + sint (defaultTxnExpirationSeconds c) < 2 ^ 63 \<longrightarrow>
      (isTransactionExpired c t lfb_creation_time clock \<longleftrightarrow>
         min (sint (if lfb_creation_time = 0 then clock else lfb_creation_time)) (sint clock)
           > sint (entCreationDate (txn t)) + sint (defaultTxnExpirationSeconds c)))"
  by (simp add: isTransactionExpired_def MinInt64_def Let_def min_def sint_add_no_overflow)

theorem isTransactionExpired_iff_witness:
  "isTransactionExpired example_config fresh_transaction 0 76
   \<and> \<not> isTransactionExpired example_config fresh_transaction 0 75
   \<and> \<not> isTransactionExpired example_config fresh_transaction 100 50
   \<and> isTransactionExpired example_config fresh_transaction 100 80"
  using isTransactionExpired_iff [of example_config fresh_transaction 0 76]
        isTransactionExpired_iff [of example_config fresh_transaction 0 75]
        isTransactionExpired_iff [of example_config fresh_transaction 100 50]
        isTransactionExpired_iff [of example_config fresh_transaction 100 80]
  by (simp add: fresh_transaction_def example_config_def example_entity_def)

subsection \<open>Extracting the block header from a confirmation\<close>

text \<open>
  When the response has a confirmation that decodes and carries a transaction, the
  header is returned exactly when the four checks pass, and an error otherwise.
\<close>

lemma getBlockHeader_with_txn:
  assumes "cfmBlock ''confirmation'' = Some cfmBytes" and "unmarshal cfmBytes = Inr cfm"
    and "cfmTransaction cfm = Some cfmTxn"
  shows "(\<exists>block. getBlockHeaderFromTransactionConfirmation H VerifyMerklePath receiptHash unmarshal
                    expectedHash cfmBlock = Returns (Inr block))
         \<longleftrightarrow>
           entHash cfmTxn = expectedHash
         \<and> VerifyMerklePath (entHash cfmTxn) (MerkleTreePath cfm) (cfmMerkleTreeRoot cfm)
         \<and> VerifyMerklePath (receiptHash cfmTxn) (ReceiptMerkleTreePath cfm) (cfmReceiptMerkleTreeRoot cfm)
         \<and> BlockHash cfm =
             H (colon_join [MinerID cfm, PreviousBlockHash cfm, int_to_decimal (sint (cfmCreationDate cfm)),
                            int_to_decimal (sint (cfmRound cfm)), int_to_decimal (sint (cfmRoundRandomSeed cfm)),
                            cfmMerkleTreeRoot cfm, cfmReceiptMerkleTreeRoot cfm])"
    and "(\<exists>block. getBlockHeaderFromTransactionConfirmation H VerifyMerklePath receiptHash unmarshal
                    expectedHash cfmBlock = Returns (Inr block))
         \<or> (\<exists>err. getBlockHeaderFromTransactionConfirmation H VerifyMerklePath receiptHash unmarshal
                    expectedHash cfmBlock = Returns (Inl err))"
  using assms
  by (auto simp: getBlockHeaderFromTransactionConfirmation_def Let_def isBlockExtends_def
        isBlockExtends_format blockHeader_zero_def simp del: colon_join.simps Sprintf.simps)

lemma getBlockHeader_parse_error:
  assumes "cfmBlock ''confirmation'' = Some cfmBytes" and "unmarshal cfmBytes = Inl err"
  shows "\<exists>err'. getBlockHeaderFromTransactionConfirmation H VerifyMerklePath receiptHash unmarshal
                   expectedHash cfmBlock = Returns (Inl err')"
  using assms
  by (cases err) (simp add: getBlockHeaderFromTransactionConfirmation_def)

text \<open>
  C3. The claim asks that every response containing a confirmation yields the header
  when the four checks pass and an error otherwise. A confirmation whose JSON has no
  \<open>txn\<close> member decodes with a nil \<open>Transaction\<close>; the first check reads
  \<open>cfm.Transaction.Hash\<close>, and the call neither returns a header nor an error: it panics.
\<close>

theorem getBlockHeader_nil_txn_panics:
  "getBlockHeaderFromTransactionConfirmation example_hash (\<lambda>h p r. True) (\<lambda>t. ''receipt'')
     (\<lambda>bytes. Inr confirmation_without_txn) ''abc'' [''confirmation'' \<mapsto> ''{}'']
   = Panics nil_dereference"
  by (simp add: getBlockHeaderFromTransactionConfirmation_def confirmation_without_txn_def)

subsection \<open>The chain walk\<close>

lemma sint_of_nat_small:
  fixes n :: nat
  assumes "n < 2 ^ 63"
  shows "sint (of_nat n :: int64) = int n"
  using assms by (simp add: signed_of_nat signed_take_bit_int_eq_self)

lemma round_offset_difference:
  fixes cR :: int64 and n :: nat
  assumes "n < 2 ^ 63"
  shows "sint ((cR + of_nat n) - cR) = int n"
  using assms by (simp add: sint_of_nat_small)

text \<open>
  A round counter \<open>n\<close> steps past \<open>cR\<close> that is not below \<open>cR\<close> has not wrapped around.
\<close>

lemma round_offset_no_wrap:
  fixes cR :: int64 and n :: nat
  assumes n: "n < 2 ^ 63" and ge: "\<not> sint (cR + of_nat n) < sint cR"
  shows "sint (cR + of_nat n) = sint cR + int n"
proof -
  have eq: "sint (cR + of_nat n) = signed_take_bit 63 (sint cR + int n)"
    using n by (simp add: sint_word_ariths sint_of_nat_small)
  have lo: "- (2 ^ 63) \<le> sint cR"
    using sint_ge [of cR] by simp
  show ?thesis
  proof (cases "sint cR + int n < 2 ^ 63")
    case True
    then show ?thesis using eq lo by (simp add: signed_take_bit_int_eq_self)
  next
    case False
    then have "signed_take_bit 63 (sint cR + int n) \<le> sint cR + int n - 2 ^ Suc 63"
      by (intro signed_take_bit_int_less_eq) simp
    then have "sint (cR + of_nat n) < sint cR"
      using eq n by simp
    with ge show ?thesis by simp
  qed
qed

lemma extends_chain_snoc:
  "extends_chain H p (hs @ [b]) \<longleftrightarrow> extends_chain H p hs \<and> isBlockExtends H (chain_tip p hs) b"
  by (induction hs arbitrary: p) auto

lemma chain_tip_snoc: "chain_tip p (hs @ [b]) = Hash b"
  by (induction hs arbitrary: p) auto

lemma fetched_in_order_snoc:
  "fetched_in_order env r (hs @ [b]) \<longleftrightarrow>
     fetched_in_order env r hs \<and> (\<exists>e \<in> set env. fetch_next_block e (r + of_nat (length hs)) = Some b)"
  by (induction hs arbitrary: r) (auto simp: add.assoc)

text \<open>
  The invariant of the loop: the headers accepted so far, \<open>hs\<close>, form a chain from the
  confirmation block whose tip is \<open>currentBlockHash\<close>, they answered the requests for the
  rounds \<open>confirmRound + 1\<close>, \<open>confirmRound + 2\<close>, ..., and \<open>round\<close> is
  \<open>confirmRound + 1 + length hs\<close>. Since the loop went on only while this distance was
  below \<open>minLen\<close>, the counter has not wrapped around when the loop returns true.
\<close>

lemma validateChain_loop_true:
  assumes "validateChain_loop H minLen cR env h r = Some (True, h', r')"
    and "extends_chain H h0 hs" and "chain_tip h0 hs = h"
    and "fetched_in_order E (cR + 1) hs" and "set env \<subseteq> set E"
    and "r = cR + of_nat (Suc (length hs))"
    and "hs = [] \<or> int (Suc (length hs)) < sint minLen"
  shows "\<exists>hs'. extends_chain H h0 hs' \<and> chain_tip h0 hs' = h' \<and> fetched_in_order E (cR + 1) hs'
           \<and> sint r' = sint cR + 1 + int (length hs') \<and> sint cR + sint minLen \<le> sint r'"
  using assms
proof (induction env arbitrary: h r hs)
  case Nil
  then show ?case by simp
next
  case (Cons e es)
  show ?case
  proof (cases "fetch_next_block e r")
    case None
    with Cons.prems have "validateChain_loop H minLen cR es h r = Some (True, h', r')" by simp
    with Cons.IH [of h r hs] Cons.prems show ?thesis by simp
  next
    case (Some b)
    define ext where "ext = isBlockExtends H h b"
    define hs1 where "hs1 = (if ext then hs @ [b] else hs)"
    define h1 where "h1 = (if ext then Hash b else h)"
    define r1 where "r1 = (if ext then r + 1 else r)"
    have minLen_lt: "sint minLen < 2 ^ 63" using sint_lt [of minLen] by simp
    have c1: "extends_chain H h0 hs1"
      using Cons.prems(2,3) by (simp add: hs1_def ext_def extends_chain_snoc)
    have c2: "chain_tip h0 hs1 = h1"
      using Cons.prems(3) by (simp add: hs1_def h1_def chain_tip_snoc)
    have "e \<in> set E" using Cons.prems(5) by simp
    then have c3: "fetched_in_order E (cR + 1) hs1"
      using Cons.prems(4,6) Some by (auto simp: hs1_def fetched_in_order_snoc add.assoc)
    have c4: "r1 = cR + of_nat (Suc (length hs1))"
      using Cons.prems(6) by (simp add: r1_def hs1_def)
    have "int (Suc (length hs)) < 2 ^ 63 - 1"
      using Cons.prems(7) minLen_lt by auto
    then have "int (Suc (length hs1)) < 2 ^ 63" by (simp add: hs1_def)
    then have small: "Suc (length hs1) < 2 ^ 63"
      by (metis of_nat_less_iff of_nat_numeral of_nat_power)
    have diff: "sint (r1 - cR) = int (Suc (length hs1))"
      unfolding c4 using small by (rule round_offset_difference)
    have step: "validateChain_loop H minLen cR (e # es) h r =
        (if sint r1 > sint cR \<and> sint (r1 - cR) < sint minLen
         then validateChain_loop H minLen cR es h1 r1
         else if sint r1 < sint cR then Some (False, h1, r1) else Some (True, h1, r1))"
      using Some by (simp add: Let_def ext_def h1_def r1_def)
    show ?thesis
    proof (cases "sint r1 > sint cR \<and> sint (r1 - cR) < sint minLen")
      case True
      with step Cons.prems(1) have run: "validateChain_loop H minLen cR es h1 r1 = Some (True, h', r')"
        by simp
      have "hs1 = [] \<or> int (Suc (length hs1)) < sint minLen"
        using True diff by simp
      with Cons.IH [OF run c1 c2 c3 _ c4] Cons.prems(5) show ?thesis by simp
    next
      case False
      with step Cons.prems(1) have nl: "\<not> sint r1 < sint cR" and res: "h' = h1" "r' = r1"
        by (auto split: if_splits)
      have val: "sint r1 = sint cR + int (Suc (length hs1))"
        using nl unfolding c4 by (rule round_offset_no_wrap [OF small])
      then have "sint r1 > sint cR" by simp
      with False diff have "sint minLen \<le> int (Suc (length hs1))" by simp
      with val c1 c2 c3 res show ?thesis by auto
    qed
  qed
qed

text \<open>A pass, and so the loop, reports \<open>StatusSuccess\<close> only after \<open>validateChain\<close> returned true.\<close>

lemma Verify_iteration_success:
  assumes "Verify_iteration c H marshal t e = (evs, Return t')"
    and "verifyStatus t' = StatusSuccess c" and "StatusError c \<noteq> StatusSuccess c"
  shows "\<exists>cb cfm. (vr_probe e = Found cb cfm \<or> vr_quorum e = Found cb cfm)
           \<and> validateChain c H (vr_chain e) cb = Some True"
  using assms
  by (auto simp: Verify_iteration_def validate_and_report_def expire_or_retry_def after_events_def
        completeVerify_def Let_def
      split: confirmation_result.splits option.splits if_splits sum.splits)

lemma Verify_loop_success:
  assumes "Verify_loop c H marshal t env = Some (t', evs)"
    and "verifyStatus t' = StatusSuccess c" and "StatusError c \<noteq> StatusSuccess c"
  shows "\<exists>e \<in> set env. \<exists>cb cfm. (vr_probe e = Found cb cfm \<or> vr_quorum e = Found cb cfm)
           \<and> validateChain c H (vr_chain e) cb = Some True"
  using assms
proof (induction env arbitrary: evs)
  case Nil
  then show ?case by simp
next
  case (Cons e es)
  obtain evs0 st where it: "Verify_iteration c H marshal t e = (evs0, st)"
    by (cases "Verify_iteration c H marshal t e")
  show ?case
  proof (cases st)
    case Continue
    with it Cons.prems(1) obtain evs' where "Verify_loop c H marshal t es = Some (t', evs')"
      by (auto split: option.splits)
    from Cons.IH [OF this Cons.prems(2,3)] show ?thesis by auto
  next
    case (Return t'')
    with it Cons.prems(1) have "t'' = t'" by simp
    with it Return Verify_iteration_success [OF _ Cons.prems(2,3)] show ?thesis by auto
  next
    case Waiting
    with it Cons.prems(1) show ?thesis by simp
  qed
qed

lemma decimals: "int_to_decimal 1020 = ''1020''" "int_to_decimal 11 = ''11''" "int_to_decimal 7 = ''7''"
  by (simp_all add: int_to_decimal_def nat_to_decimal.simps digit_char_def)

lemma next_block_extends: "isBlockExtends example_hash ''c0'' next_block"
  by (simp add: isBlockExtends_def next_block_def blockHeader_zero_def Let_def decimals)

lemma one_header_walk_run:
  "validateChain_loop example_hash 2 10 one_header_walk ''c0'' 11 = Some (True, Hash next_block, 12)"
  using next_block_extends
  by (simp add: one_header_walk_def fetch_next_block_def Let_def)

lemma example_round_run:
  "Verify_loop example_config example_hash example_marshal submitted_transaction [example_round]
     = Some (submitted_transaction\<lparr>verifyStatus := 0, verifyOut := ''out'', verifyError := None\<rparr>,
             [QueryConfirmation 1, OnVerifyComplete 0])"
  using one_header_walk_run
  by (simp add: Verify_iteration_def example_round_def validate_and_report_def validateChain_def
        confirm_block_def blockHeader_zero_def example_config_def example_marshal_def completeVerify_def
        after_events_def submitted_transaction_def fresh_transaction_def Let_def)

text \<open>
  C1, as amended. Whenever the loop of \<open>Verify\<close> reports \<open>StatusSuccess\<close>, one of its passes
  had a confirmation block \<open>cb\<close> for which the chain walk returned true, and at that
  moment: the headers \<open>hs\<close> it accepted were fetched for the rounds \<open>Round cb + 1\<close>,
  \<open>Round cb + 2\<close>, ... in order, each extends the one before it (the first extends
  \<open>cb\<close>), the last one is the chain tip, and the round counter, which started at
  \<open>Round cb + 1\<close> and went up by one per accepted header, is at least
  \<open>Round cb + min_required_chain_length\<close> (as integers: it did not wrap around). So
  at least \<open>min_required_chain_length - 1\<close> successive extending headers were verified.
\<close>

theorem Verify_success_chain_walk:
  assumes "Verify_loop c H marshal t env = Some (t', evs)"
    and "verifyStatus t' = StatusSuccess c" and "StatusError c \<noteq> StatusSuccess c"
  shows "\<exists>e \<in> set env. \<exists>cb cfm hs r'.
           (vr_probe e = Found cb cfm \<or> vr_quorum e = Found cb cfm)
         \<and> validateChain_loop H (MinRequiredChainLength c) (Round cb) (vr_chain e) (Hash cb) (Round cb + 1)
             = Some (True, chain_tip (Hash cb) hs, r')
         \<and> extends_chain H (Hash cb) hs
         \<and> fetched_in_order (vr_chain e) (Round cb + 1) hs
         \<and> sint r' = sint (Round cb) + 1 + int (length hs)
         \<and> sint (Round cb) + sint (MinRequiredChainLength c) \<le> sint r'
         \<and> sint (MinRequiredChainLength c) - 1 \<le> int (length hs)"
proof -
  from Verify_loop_success [OF assms] obtain e cb cfm
    where e: "e \<in> set env" and found: "vr_probe e = Found cb cfm \<or> vr_quorum e = Found cb cfm"
      and valid: "validateChain c H (vr_chain e) cb = Some True"
    by blast
  from valid obtain h' r' where run:
    "validateChain_loop H (MinRequiredChainLength c) (Round cb) (vr_chain e) (Hash cb) (Round cb + 1)
       = Some (True, h', r')"
    by (auto simp: validateChain_def)
  have "\<exists>hs'. extends_chain H (Hash cb) hs' \<and> chain_tip (Hash cb) hs' = h'
          \<and> fetched_in_order (vr_chain e) (Round cb + 1) hs'
          \<and> sint r' = sint (Round cb) + 1 + int (length hs')
          \<and> sint (Round cb) + sint (MinRequiredChainLength c) \<le> sint r'"
    by (rule validateChain_loop_true [OF run, of "Hash cb" "[]"]) simp_all
  then obtain hs where hs: "extends_chain H (Hash cb) hs" "chain_tip (Hash cb) hs = h'"
      "fetched_in_order (vr_chain e) (Round cb + 1) hs"
      "sint r' = sint (Round cb) + 1 + int (length hs)"
      "sint (Round cb) + sint (MinRequiredChainLength c) \<le> sint r'"
    by blast
  then have "sint (MinRequiredChainLength c) - 1 \<le> int (length hs)" by simp
  with e found run hs show ?thesis by blast
qed

theorem Verify_success_chain_walk_witness:
  "\<exists>e \<in> set [example_round]. \<exists>cb cfm hs r'.
           (vr_probe e = Found cb cfm \<or> vr_quorum e = Found cb cfm)
         \<and> validateChain_loop example_hash (MinRequiredChainLength example_config) (Round cb)
              (vr_chain e) (Hash cb) (Round cb + 1)
             = Some (True, chain_tip (Hash cb) hs, r')
         \<and> extends_chain example_hash (Hash cb) hs
         \<and> fetched_in_order (vr_chain e) (Round cb + 1) hs
         \<and> sint r' = sint (Round cb) + 1 + int (length hs)
         \<and> sint (Round cb) + sint (MinRequiredChainLength example_config) \<le> sint r'
         \<and> sint (MinRequiredChainLength example_config) - 1 \<le> int (length hs)"
proof -
  have s: "verifyStatus (submitted_transaction\<lparr>verifyStatus := 0, verifyOut := ''out'', verifyError := None\<rparr>)
             = StatusSuccess example_config"
    by (simp add: example_config_def)
  have n: "StatusError example_config \<noteq> StatusSuccess example_config"
    by (simp add: example_config_def)
  show ?thesis by (rule Verify_success_chain_walk [OF example_round_run s n])
qed

text \<open>
  The claim as first stated asks that the chain has advanced by at least
  \<open>min_required_chain_length\<close> rounds past the confirmation round. With a required
  length of 2 and a confirmation in round 10, the walk returns true, and \<open>Verify\<close>
  reports success, after a single pass that verified the header of round 11 alone: the
  chain tip is that header, one round past the confirmation, and the counter, which
  names the next round to ask for, is 12.
\<close>

theorem Verify_success_chain_walk_counterexample:
  "MinRequiredChainLength example_config = 2
   \<and> Round confirm_block = 10 \<and> Round next_block = 11
   \<and> length (vr_chain example_round) = 1
   \<and> validateChain_loop example_hash (MinRequiredChainLength example_config) (Round confirm_block)
        (vr_chain example_round) (Hash confirm_block) (Round confirm_block + 1)
      = Some (True, Hash next_block, 12)
   \<and> Verify_loop example_config example_hash example_marshal submitted_transaction [example_round]
      = Some (submitted_transaction\<lparr>verifyStatus := StatusSuccess example_config, verifyOut := ''out'',
                                     verifyError := None\<rparr>,
              [QueryConfirmation 1, OnVerifyComplete (StatusSuccess example_config)])"
  using one_header_walk_run example_round_run
  by (simp add: example_config_def confirm_block_def next_block_def example_round_def
        one_header_walk_def blockHeader_zero_def)

subsection \<open>Escalation to the quorum query\<close>

lemma query_sizes_expire_or_retry: "query_sizes (fst (expire_or_retry c t lfb tn)) = []"
  by (simp add: expire_or_retry_def completeVerify_def Let_def)

lemma query_sizes_validate_and_report:
  "query_sizes (fst (validate_and_report c H marshal t env cb cfm)) = []"
  by (simp add: validate_and_report_def completeVerify_def Let_def split: option.splits sum.splits)

text \<open>
  C6, as amended. In a pass whose probe of one sharder yields no confirmation, the engine
  queries \<open>min_sharders_verify\<close> sharders, right after the probe and before any
  completion, exactly when \<open>max(lfb_creation_time, now) < creation_date +
  defaultTxnExpirationSeconds\<close>. When that bound fails it makes no second query: it
  reports failure if the transaction is expired by the expiration rule, and otherwise
  goes on to the next pass.
\<close>

theorem Verify_escalation_gate:
  assumes "vr_probe e = NotFound lfb"
  shows "(sint (MaxInt64 (CreationDate lfb) (vr_now e))
            < sint (entCreationDate (txn t) + defaultTxnExpirationSeconds c) \<longrightarrow>
          (\<exists>rest. fst (Verify_iteration c H marshal t e)
                     = QueryConfirmation 1 # QueryConfirmation (MinShardersVerify c) # rest
                 \<and> query_sizes rest = []))
       \<and> (\<not> sint (MaxInt64 (CreationDate lfb) (vr_now e))
              < sint (entCreationDate (txn t) + defaultTxnExpirationSeconds c) \<longrightarrow>
          query_sizes (fst (Verify_iteration c H marshal t e)) = [1]
          \<and> (if isTransactionExpired c t (CreationDate lfb) (vr_now e)
             then \<exists>t'. snd (Verify_iteration c H marshal t e) = Return t' \<and> verifyStatus t' = StatusError c
             else snd (Verify_iteration c H marshal t e) = Continue))"
proof (intro conjI impI)
  assume gate: "sint (MaxInt64 (CreationDate lfb) (vr_now e))
            < sint (entCreationDate (txn t) + defaultTxnExpirationSeconds c)"
  show "\<exists>rest. fst (Verify_iteration c H marshal t e)
                     = QueryConfirmation 1 # QueryConfirmation (MinShardersVerify c) # rest
                 \<and> query_sizes rest = []"
    using assms gate
    by (cases "vr_quorum e")
       (simp_all add: Verify_iteration_def after_events_def Let_def
          query_sizes_expire_or_retry query_sizes_validate_and_report)
next
  assume gate: "\<not> sint (MaxInt64 (CreationDate lfb) (vr_now e))
            < sint (entCreationDate (txn t) + defaultTxnExpirationSeconds c)"
  then have it: "Verify_iteration c H marshal t e
      = after_events [QueryConfirmation 1] (expire_or_retry c t lfb (vr_now e))"
    using assms by (simp add: Verify_iteration_def Let_def)
  show "query_sizes (fst (Verify_iteration c H marshal t e)) = [1]"
    by (simp add: it after_events_def query_sizes_expire_or_retry)
  show "if isTransactionExpired c t (CreationDate lfb) (vr_now e)
        then \<exists>t'. snd (Verify_iteration c H marshal t e) = Return t' \<and> verifyStatus t' = StatusError c
        else snd (Verify_iteration c H marshal t e) = Continue"
    by (simp add: it after_events_def expire_or_retry_def completeVerify_def Let_def)
qed

theorem Verify_escalation_gate_witness:
  "vr_probe early_round = NotFound (blockHeader_zero\<lparr>CreationDate := 1040\<rparr>)
   \<and> sint (MaxInt64 1040 (vr_now early_round))
        < sint (entCreationDate (txn submitted_transaction) + defaultTxnExpirationSeconds example_config)
   \<and> (\<exists>rest. fst (Verify_iteration example_config example_hash example_marshal submitted_transaction early_round)
               = QueryConfirmation 1 # QueryConfirmation 3 # rest \<and> query_sizes rest = [])
   \<and> vr_probe late_round = NotFound (blockHeader_zero\<lparr>CreationDate := 1070\<rparr>)
   \<and> \<not> sint (MaxInt64 1070 (vr_now late_round))
        < sint (entCreationDate (txn submitted_transaction) + defaultTxnExpirationSeconds example_config)
   \<and> query_sizes (fst (Verify_iteration example_config example_hash example_marshal submitted_transaction late_round)) = [1]
   \<and> snd (Verify_iteration example_config example_hash example_marshal submitted_transaction late_round) = Continue"
proof -
  have p1: "vr_probe early_round = NotFound (blockHeader_zero\<lparr>CreationDate := 1040\<rparr>)"
    by (simp add: early_round_def)
  have p2: "vr_probe late_round = NotFound (blockHeader_zero\<lparr>CreationDate := 1070\<rparr>)"
    by (simp add: late_round_def)
  have g1: "sint (MaxInt64 1040 (vr_now early_round))
        < sint (entCreationDate (txn submitted_transaction) + defaultTxnExpirationSeconds example_config)"
    by (simp add: MaxInt64_def early_round_def submitted_transaction_def example_entity_def
          fresh_transaction_def example_config_def)
  have g2: "\<not> sint (MaxInt64 1070 (vr_now late_round))
        < sint (entCreationDate (txn submitted_transaction) + defaultTxnExpirationSeconds example_config)"
    by (simp add: MaxInt64_def late_round_def submitted_transaction_def example_entity_def
          fresh_transaction_def example_config_def)
  have x: "\<not> isTransactionExpired example_config submitted_transaction 1070 (vr_now late_round)"
    by (simp add: isTransactionExpired_def MinInt64_def late_round_def submitted_transaction_def
          example_entity_def fresh_transaction_def example_config_def)
  show ?thesis
    using Verify_escalation_gate [OF p1, of submitted_transaction example_config example_hash example_marshal]
          Verify_escalation_gate [OF p2, of submitted_transaction example_config example_hash example_marshal]
          p1 p2 g1 g2 x
    by (simp add: blockHeader_zero_def example_config_def)
qed

text \<open>
  The claim as first stated asks for the quorum query whenever the probe yields no
  confirmation and the transaction is not expired by the rule
  \<open>min(lfb_creation_time, now) > creation_date + defaultTxnExpirationSeconds\<close>. For a
  transaction created at 1000 with a window of 75 seconds: with the latest finalized
  block created at 1070 and the clock at 1080 the transaction is not expired, and the
  pass ends after the probe alone, without a quorum query; likewise when no sharder
  reported a block and the clock stands at 1075.
\<close>

theorem Verify_escalation_counterexample:
  "vr_probe late_round = NotFound (blockHeader_zero\<lparr>CreationDate := 1070\<rparr>)
   \<and> \<not> isTransactionExpired example_config submitted_transaction 1070 (vr_now late_round)
   \<and> Verify_iteration example_config example_hash example_marshal submitted_transaction late_round
       = ([QueryConfirmation 1], Continue)
   \<and> vr_probe boundary_round = NotFound blockHeader_zero
   \<and> \<not> isTransactionExpired example_config submitted_transaction 0 (vr_now boundary_round)
   \<and> Verify_iteration example_config example_hash example_marshal submitted_transaction boundary_round
       = ([QueryConfirmation 1], Continue)"
  by (simp add: Verify_iteration_def after_events_def expire_or_retry_def isTransactionExpired_def
        MinInt64_def MaxInt64_def late_round_def boundary_round_def submitted_transaction_def
        example_entity_def fresh_transaction_def example_config_def blockHeader_zero_def Let_def)

end
